theory Spec2Isabelle
  imports Complex_Main "HOL-Library.Log_Nat"
begin

section \<open>Safe Return: risk engine and programme timeline\<close>

text \<open>
  A shallow embedding of \<^verbatim>\<open>core/risk_engine.py\<close> and of the timeline properties of
  \<^verbatim>\<open>core/models.py\<close>. Django model instances are records, the database tables the
  engine touches are lists of rows in insertion order, and the exceptions that the object
  manager can raise are values of the type \<open>error\<close>.
\<close>

subsection \<open>Data model (core/models.py)\<close>

text \<open>
  \<open>User\<close>: only the fields the engine reads. The primary key is \<open>user_id\<close>.
\<close>

record user =
  user_id :: nat
  full_name :: string

text \<open>
  \<open>ReleaseProfile\<close>. Dates are day numbers (\<^verbatim>\<open>date.toordinal()\<close>); a date field that
  holds \<^verbatim>\<open>None\<close> is \<open>None\<close>. \<open>risk_level\<close> is a \<^verbatim>\<open>CharField\<close>, so it is a string.
  The nullable foreign key \<open>assigned_case_worker\<close> is an option.
\<close>

record release_profile =
  profile_id :: nat
  profile_user :: user
  release_date :: "int option"
  end_of_followup_date :: "int option"
  risk_level :: string
  assigned_case_worker :: "user option"

text \<open>
  \<open>MonthlyCheckin\<close>. The four status fields are \<^verbatim>\<open>CharField\<close>s: the choices lists are
  not enforced by the engine, so they are arbitrary strings here. \<open>checkin_id\<close> is the
  primary key (rows created later have a larger key); \<open>release_profile_id\<close> is the
  foreign key \<^verbatim>\<open>release_profile\<close>.
\<close>

record checkin =
  checkin_id :: nat
  release_profile_id :: nat
  month_index :: nat
  housing_status :: string
  job_status :: string
  mental_state :: string
  family_status :: string

text \<open>
  \<open>SupportTicket\<close>. \<open>ticket_profile_id\<close> is the foreign key \<^verbatim>\<open>release_profile\<close>. The notes
  are free text; the four notes that the engine writes are Arabic sentences that end in the
  month index of the check-in, so they are constructors that carry that index:
  \<open>Note_mental_bad\<close> (mental state bad in month n), \<open>Note_homeless\<close> (homeless in month n),
  \<open>Note_unemployed\<close> (unemployed in month n), \<open>Note_family_problems\<close> (family problems in
  month n).
\<close>

datatype note_text =
    Note_text string
  | Note_mental_bad nat
  | Note_homeless nat
  | Note_unemployed nat
  | Note_family_problems nat

record support_ticket =
  ticket_profile_id :: nat
  created_by :: "user option"
  ticket_type :: string
  status :: string
  ticket_notes :: note_text
  is_auto_generated :: bool

text \<open>
  \<open>Notification\<close>. The messages of the engine are Arabic templates: two alerts to the case
  worker, which embed the beneficiary's full name (\<open>Alert_psychological\<close>: needs urgent
  psychological support; \<open>Alert_homeless\<close>: is homeless), and the three messages to the
  beneficiary (\<open>Risk_green\<close>: your situation is stable; \<open>Risk_yellow\<close>: there are some
  concerns, a specialist will contact you soon; \<open>Risk_red\<close>: we need to contact you urgently,
  wait for the specialist's call).
\<close>

datatype message_text =
    Message_text string
  | Alert_psychological string
  | Alert_homeless string
  | Risk_green
  | Risk_yellow
  | Risk_red

record notification =
  notification_user :: user
  message :: message_text
  link :: string
  is_read :: bool

text \<open>
  The database: each table is the list of its rows in insertion order. Timestamps are left
  out.
\<close>

record db =
  profiles :: "release_profile list"
  checkins :: "checkin list"
  tickets :: "support_ticket list"
  notifications :: "notification list"

datatype error = DoesNotExist | MultipleObjectsReturned | KeyError

subsection \<open>Risk classification (calculate\_risk\_level)\<close>

definition red_conditions :: "checkin \<Rightarrow> bool list" where
  "red_conditions c =
     [mental_state c = ''bad'',
      housing_status c = ''homeless'']"

definition yellow_conditions :: "checkin \<Rightarrow> bool list" where
  "yellow_conditions c =
     [job_status c = ''unemployed'',
      family_status c = ''problematic'',
      mental_state c = ''stressed'',
      family_status c = ''no_contact'']"

text \<open>Python's \<^verbatim>\<open>any\<close> on a list of booleans.\<close>

definition any :: "bool list \<Rightarrow> bool" where
  "any bs = list_ex (\<lambda>b. b) bs"

definition calculate_risk_level :: "checkin \<Rightarrow> string" where
  "calculate_risk_level c =
     (if any (red_conditions c) then ''red''
      else if any (yellow_conditions c) then ''yellow''
      else ''green'')"

text \<open>The choices lists of \<open>MonthlyCheckin\<close>, as the keys they enumerate.\<close>

definition HOUSING_STATUS_CHOICES :: "string list" where
  "HOUSING_STATUS_CHOICES = [''stable'', ''temporary'', ''with_family'', ''homeless'']"

definition JOB_STATUS_CHOICES :: "string list" where
  "JOB_STATUS_CHOICES =
     [''employed'', ''self_employed'', ''searching'', ''unemployed'', ''training'']"

definition MENTAL_STATE_CHOICES :: "string list" where
  "MENTAL_STATE_CHOICES = [''good'', ''moderate'', ''stressed'', ''bad'']"

definition FAMILY_STATUS_CHOICES :: "string list" where
  "FAMILY_STATUS_CHOICES = [''supportive'', ''neutral'', ''problematic'', ''no_contact'']"


subsection \<open>Programme timeline (ReleaseProfile.current\_month, progress\_percentage)\<close>

text \<open>
  \<^verbatim>\<open>current_month\<close> reads \<^verbatim>\<open>timezone.now().date()\<close>; the model takes that date as the
  argument \<open>today\<close>. A date object is always truthy, so \<^verbatim>\<open>not self.release_date\<close> holds
  exactly when the field is \<^verbatim>\<open>None\<close>. The difference of two dates is a number of days and
  does not raise; Python's \<^verbatim>\<open>//\<close> on integers is floor division, which is \<open>div\<close> on \<open>int\<close>.
\<close>

definition current_month :: "release_profile \<Rightarrow> int \<Rightarrow> int" where
  "current_month p today =
     (case release_date p of
        None \<Rightarrow> 0
      | Some rd \<Rightarrow>
          let days_since_release = today - rd;
              month = days_since_release div 30 + 1
          in min month 12)"

text \<open>
  \<^verbatim>\<open>progress_percentage\<close> computes in Python floats. A float is an IEEE binary64 number:
  each operation returns the exact result rounded to 53 significant bits, to nearest, ties
  to even. \<open>float_round\<close> is that rounding on exact rationals, with an unbounded exponent
  (no value of this program leaves the normal range of binary64). \<open>py_round\<close> is Python's
  \<^verbatim>\<open>round\<close> to an integer (half to even), \<open>py_int\<close> is \<^verbatim>\<open>int\<close> on a float (truncation
  towards zero).
\<close>

definition py_round :: "rat \<Rightarrow> int" where
  "py_round q =
     (let f = \<lfloor>q\<rfloor>; d = q - of_int f
      in if d < 1 / 2 then f
         else if 1 / 2 < d then f + 1
         else if even f then f else f + 1)"

definition py_int :: "rat \<Rightarrow> int" where
  "py_int q = (if 0 \<le> q then \<lfloor>q\<rfloor> else \<lceil>q\<rceil>)"

definition float_round :: "rat \<Rightarrow> rat" where
  "float_round q =
     (if q = 0 then 0
      else let (a, b) = quotient_of \<bar>q\<bar>;
               d = bitlen a - bitlen b;
               e = (if 2 powi d \<le> \<bar>q\<bar> then d else d - 1);
               ulp = 2 powi (e - 52)
           in of_int (py_round (q / ulp)) * ulp)"

definition float_div :: "rat \<Rightarrow> rat \<Rightarrow> rat" where
  "float_div x y = float_round (x / y)"

definition float_mul :: "rat \<Rightarrow> rat \<Rightarrow> rat" where
  "float_mul x y = float_round (x * y)"

definition progress_percentage :: "release_profile \<Rightarrow> int \<Rightarrow> int" where
  "progress_percentage p today =
     min 100 (py_int (float_mul (float_div (of_int (current_month p today)) 12) 100))"

subsection \<open>Object manager operations\<close>

text \<open>Loading a profile by its primary key.\<close>

definition get_profile :: "db \<Rightarrow> nat \<Rightarrow> release_profile option" where
  "get_profile d pk = find (\<lambda>row. profile_id row = pk) (profiles d)"

text \<open>
  \<^verbatim>\<open>ReleaseProfile.save\<close>: the follow-up end date is filled in when the release date is
  set and the end date is not; then the row with the instance's primary key is updated, or
  inserted when there is none. The instance itself is updated too, so it is returned with
  the database.
\<close>

definition release_profile_save :: "release_profile \<Rightarrow> db \<Rightarrow> release_profile \<times> db" where
  "release_profile_save self d =
     (let self' =
        (case (release_date self, end_of_followup_date self) of
           (Some rd, None) \<Rightarrow> self\<lparr>end_of_followup_date := Some (rd + 365)\<rparr>
         | _ \<Rightarrow> self)
      in (self',
          d\<lparr>profiles :=
             (if list_ex (\<lambda>row. profile_id row = profile_id self') (profiles d)
              then map (\<lambda>row. if profile_id row = profile_id self' then self' else row)
                     (profiles d)
              else profiles d @ [self'])\<rparr>))"

text \<open>
  \<^verbatim>\<open>SupportTicket.objects.get_or_create(release_profile=, ticket_type=, status=,
  is_auto_generated=, defaults={'notes': })\<close>: \<^verbatim>\<open>get\<close> returns the only row that matches the
  four lookups, raises \<^verbatim>\<open>MultipleObjectsReturned\<close> when more than one row matches, and
  when none does a row is created from the lookups and the defaults. The result is the row
  and whether it was created.
\<close>

definition lookup :: "nat \<Rightarrow> string \<Rightarrow> string \<Rightarrow> bool \<Rightarrow> support_ticket \<Rightarrow> bool" where
  "lookup pid ty st auto t \<longleftrightarrow>
     ticket_profile_id t = pid \<and> ticket_type t = ty \<and> status t = st \<and>
     is_auto_generated t = auto"

definition get_or_create ::
  "db \<Rightarrow> nat \<Rightarrow> string \<Rightarrow> string \<Rightarrow> bool \<Rightarrow> note_text \<Rightarrow> error + (support_ticket \<times> bool) \<times> db"
where
  "get_or_create d pid ty st auto defaults_notes =
     (case filter (lookup pid ty st auto) (tickets d) of
        [] \<Rightarrow>
          let ticket = \<lparr>ticket_profile_id = pid, created_by = None, ticket_type = ty,
                        status = st, ticket_notes = defaults_notes,
                        is_auto_generated = auto\<rparr>
          in Inr ((ticket, True), d\<lparr>tickets := tickets d @ [ticket]\<rparr>)
      | [ticket] \<Rightarrow> Inr ((ticket, False), d)
      | _ \<Rightarrow> Inl MultipleObjectsReturned)"

text \<open>\<^verbatim>\<open>Notification.objects.create(user=, message=, link=)\<close>; \<open>is_read\<close> defaults to false.\<close>

definition notification_create :: "db \<Rightarrow> user \<Rightarrow> message_text \<Rightarrow> string \<Rightarrow> db" where
  "notification_create d u m l =
     d\<lparr>notifications := notifications d @
          [\<lparr>notification_user = u, message = m, link = l, is_read = False\<rparr>]\<rparr>"

text \<open>Python's \<^verbatim>\<open>str\<close> on a non-negative integer, for the profile link.\<close>

function str :: "nat \<Rightarrow> string" where
  "str n =
     (if n < 10 then [char_of (48 + n)]
      else str (n div 10) @ [char_of (48 + n mod 10)])"
  by pat_completeness auto
termination
  by (relation "measure (\<lambda>n. n)") auto

declare str.simps [simp del]

definition caseworker_profile_link :: "release_profile \<Rightarrow> string" where
  "caseworker_profile_link profile = ''/caseworker/profile/'' @ str (profile_id profile) @ ''/''"

subsection \<open>Processing a check-in (process\_checkin)\<close>

text \<open>
  The four ticket blocks of \<^verbatim>\<open>process_checkin\<close>, in the order of the source. Each takes the
  database and the list \<^verbatim>\<open>created_tickets\<close> so far. An exception of \<open>get_or_create\<close> leaves
  the block at once.
\<close>

type_synonym progress = "db \<times> support_ticket list"

definition psychological_block :: "checkin \<Rightarrow> release_profile \<Rightarrow> progress \<Rightarrow> error + progress" where
  "psychological_block c profile s =
     (case s of (d, created_tickets) \<Rightarrow>
        if mental_state c = ''bad'' then
          (case get_or_create d (profile_id profile) ''psychological'' ''open'' True
                  (Note_mental_bad (month_index c)) of
             Inl e \<Rightarrow> Inl e
           | Inr ((ticket, created), d1) \<Rightarrow>
               if created then
                 (case assigned_case_worker profile of
                    Some w \<Rightarrow>
                      Inr (notification_create d1 w
                             (Alert_psychological (full_name (profile_user profile)))
                             (caseworker_profile_link profile),
                           created_tickets @ [ticket])
                  | None \<Rightarrow> Inr (d1, created_tickets @ [ticket]))
               else Inr (d1, created_tickets))
        else Inr (d, created_tickets))"

definition housing_block :: "checkin \<Rightarrow> release_profile \<Rightarrow> progress \<Rightarrow> error + progress" where
  "housing_block c profile s =
     (case s of (d, created_tickets) \<Rightarrow>
        if housing_status c = ''homeless'' then
          (case get_or_create d (profile_id profile) ''housing'' ''open'' True
                  (Note_homeless (month_index c)) of
             Inl e \<Rightarrow> Inl e
           | Inr ((ticket, created), d1) \<Rightarrow>
               if created then
                 (case assigned_case_worker profile of
                    Some w \<Rightarrow>
                      Inr (notification_create d1 w
                             (Alert_homeless (full_name (profile_user profile)))
                             (caseworker_profile_link profile),
                           created_tickets @ [ticket])
                  | None \<Rightarrow> Inr (d1, created_tickets @ [ticket]))
               else Inr (d1, created_tickets))
        else Inr (d, created_tickets))"

definition job_block :: "checkin \<Rightarrow> release_profile \<Rightarrow> progress \<Rightarrow> error + progress" where
  "job_block c profile s =
     (case s of (d, created_tickets) \<Rightarrow>
        if job_status c = ''unemployed'' then
          (case get_or_create d (profile_id profile) ''job'' ''open'' True
                  (Note_unemployed (month_index c)) of
             Inl e \<Rightarrow> Inl e
           | Inr ((ticket, created), d1) \<Rightarrow>
               if created then Inr (d1, created_tickets @ [ticket])
               else Inr (d1, created_tickets))
        else Inr (d, created_tickets))"

definition social_block :: "checkin \<Rightarrow> release_profile \<Rightarrow> progress \<Rightarrow> error + progress" where
  "social_block c profile s =
     (case s of (d, created_tickets) \<Rightarrow>
        if family_status c \<in> set [''problematic'', ''no_contact''] then
          (case get_or_create d (profile_id profile) ''social'' ''open'' True
                  (Note_family_problems (month_index c)) of
             Inl e \<Rightarrow> Inl e
           | Inr ((ticket, created), d1) \<Rightarrow>
               if created then Inr (d1, created_tickets @ [ticket])
               else Inr (d1, created_tickets))
        else Inr (d, created_tickets))"

text \<open>The dictionary \<^verbatim>\<open>risk_messages\<close>; a missing key raises \<^verbatim>\<open>KeyError\<close>.\<close>

definition risk_messages :: "string \<rightharpoonup> message_text" where
  "risk_messages =
     map_of [(''green'', Risk_green), (''yellow'', Risk_yellow), (''red'', Risk_red)]"

definition beneficiary_dashboard_link :: string where
  "beneficiary_dashboard_link = ''/beneficiary/dashboard/''"

record processing_result =
  old_risk_level :: string
  new_risk_level :: string
  risk_changed :: bool
  created_tickets :: "support_ticket list"

text \<open>
  \<^verbatim>\<open>process_checkin\<close>. \<^verbatim>\<open>checkin.release_profile\<close> loads the profile row; the view does not
  run the engine in a transaction, so what was written before an exception stays written:
  the function returns the database also in that case.
\<close>

definition process_checkin :: "db \<Rightarrow> checkin \<Rightarrow> db \<times> (error + processing_result)" where
  "process_checkin d c =
     (case get_profile d (release_profile_id c) of
        None \<Rightarrow> (d, Inl DoesNotExist)
      | Some profile0 \<Rightarrow>
          let new_level = calculate_risk_level c;
              old_level = risk_level profile0;
              (profile, d0) = release_profile_save (profile0\<lparr>risk_level := new_level\<rparr>) d
          in case psychological_block c profile (d0, []) of
               Inl e \<Rightarrow> (d0, Inl e)
             | Inr s1 \<Rightarrow>
           (case housing_block c profile s1 of
               Inl e \<Rightarrow> (fst s1, Inl e)
             | Inr s2 \<Rightarrow>
           (case job_block c profile s2 of
               Inl e \<Rightarrow> (fst s2, Inl e)
             | Inr s3 \<Rightarrow>
           (case social_block c profile s3 of
               Inl e \<Rightarrow> (fst s3, Inl e)
             | Inr (d4, tickets4) \<Rightarrow>
                 let result = \<lparr>old_risk_level = old_level, new_risk_level = new_level,
                               risk_changed = (old_level \<noteq> new_level),
                               created_tickets = tickets4\<rparr>
                 in if new_level \<noteq> old_level then
                      (case risk_messages new_level of
                         None \<Rightarrow> (d4, Inl KeyError)
                       | Some m \<Rightarrow>
                           (notification_create d4 (profile_user profile) m
                              beneficiary_dashboard_link,
                            Inr result))
                    else (d4, Inr result)))))"

subsection \<open>Risk summary (get\_risk\_summary)\<close>





definition first :: "'a list \<Rightarrow> 'a option" where
  "first rows = (case rows of [] \<Rightarrow> None | row # _ \<Rightarrow> Some row)"


subsection \<open>Notions used in the properties\<close>



text \<open>
  The (profile, category) keys of the open auto-generated tickets, one entry per ticket.
  At most one such ticket per key means that this list has no duplicates.
\<close>

definition open_auto_keys :: "support_ticket list \<Rightarrow> (nat \<times> string) list" where
  "open_auto_keys ts =
     map (\<lambda>t. (ticket_profile_id t, ticket_type t))
       (filter (\<lambda>t. status t = ''open'' \<and> is_auto_generated t) ts)"

definition open_auto_unique :: "db \<Rightarrow> bool" where
  "open_auto_unique d \<longleftrightarrow> distinct (open_auto_keys (tickets d))"

text \<open>The ticket that \<open>get_or_create\<close> inserts for the engine, and the alert to a case worker.\<close>

definition auto_ticket :: "nat \<Rightarrow> string \<Rightarrow> note_text \<Rightarrow> support_ticket" where
  "auto_ticket pid ty n =
     \<lparr>ticket_profile_id = pid, created_by = None, ticket_type = ty, status = ''open'',
      ticket_notes = n, is_auto_generated = True\<rparr>"

definition caseworker_alert :: "release_profile \<Rightarrow> message_text \<Rightarrow> notification list" where
  "caseworker_alert profile m =
     (case assigned_case_worker profile of
        None \<Rightarrow> []
      | Some w \<Rightarrow>
          [\<lparr>notification_user = w, message = m, link = caseworker_profile_link profile,
            is_read = False\<rparr>])"

text \<open>
  The common shape of the four ticket blocks: a trigger, a category, a note and, for the
  two urgent categories, an alert.
\<close>

definition ticket_block ::
  "bool \<Rightarrow> string \<Rightarrow> note_text \<Rightarrow> message_text option \<Rightarrow> release_profile \<Rightarrow> progress
     \<Rightarrow> error + progress"
where
  "ticket_block trig ty n alert profile s =
     (if \<not> trig then Inr s
      else case filter (lookup (profile_id profile) ty ''open'' True) (tickets (fst s)) of
          [] \<Rightarrow>
            Inr ((fst s)\<lparr>tickets := tickets (fst s) @ [auto_ticket (profile_id profile) ty n],
                   notifications := notifications (fst s) @
                     (case alert of None \<Rightarrow> [] | Some m \<Rightarrow> caseworker_alert profile m)\<rparr>,
                 snd s @ [auto_ticket (profile_id profile) ty n])
        | [t] \<Rightarrow> Inr s
        | _ \<Rightarrow> Inl MultipleObjectsReturned)"

text \<open>
  The ticket that a block issues: none when the trigger is off or an open auto-generated
  ticket of the category exists among \<open>ts\<close>.
\<close>

definition issued :: "support_ticket list \<Rightarrow> nat \<Rightarrow> bool \<Rightarrow> string \<Rightarrow> note_text \<Rightarrow> support_ticket list" where
  "issued ts pid trig ty n =
     (if trig \<and> filter (lookup pid ty ''open'' True) ts = [] then [auto_ticket pid ty n] else [])"

text \<open>The message to the beneficiary for a risk level, as \<open>process_checkin\<close> builds it.\<close>

definition beneficiary_message :: "release_profile \<Rightarrow> string \<Rightarrow> notification" where
  "beneficiary_message profile level =
     \<lparr>notification_user = profile_user profile,
      message = (if level = ''green'' then Risk_green
                 else if level = ''yellow'' then Risk_yellow else Risk_red),
      link = beneficiary_dashboard_link, is_read = False\<rparr>"

subsection \<open>The specification's wording, for comparison\<close>

text \<open>
  The two timeline functions as the specification words them, for comparison: the month
  clamped to \<open>[1, 12]\<close>, and the percentage rounded to the nearest integer.
\<close>

definition current_month_spec :: "int option \<Rightarrow> int \<Rightarrow> int" where
  "current_month_spec release today =
     (case release of
        None \<Rightarrow> 0
      | Some rd \<Rightarrow> max 1 (min 12 (\<lfloor>rat_of_int (today - rd) / 30\<rfloor> + 1)))"

definition progress_percentage_spec :: "int \<Rightarrow> int" where
  "progress_percentage_spec m = min 100 (py_round (float_mul (float_div (of_int m) 12) 100))"


subsection \<open>Example data\<close>

text \<open>
  A beneficiary with an assigned case worker, an empty database around the profile, and
  the check-in of the specification's scenario.
\<close>

definition beneficiary :: user where
  "beneficiary = \<lparr>user_id = 1, full_name = ''Ahmed''\<rparr>"

definition caseworker :: user where
  "caseworker = \<lparr>user_id = 2, full_name = ''Sara''\<rparr>"

definition example_profile :: release_profile where
  "example_profile =
     \<lparr>profile_id = 1, profile_user = beneficiary, release_date = Some 739000,
      end_of_followup_date = Some 739365, risk_level = ''green'',
      assigned_case_worker = Some caseworker\<rparr>"

definition example_db :: db where
  "example_db = \<lparr>profiles = [example_profile], checkins = [], tickets = [], notifications = []\<rparr>"

definition scenario_checkin :: checkin where
  "scenario_checkin =
     \<lparr>checkin_id = 1, release_profile_id = 1, month_index = 3,
      housing_status = ''temporary'', job_status = ''unemployed'',
      mental_state = ''bad'', family_status = ''problematic''\<rparr>"

text \<open>The database and the result after the scenario's check-in is processed.\<close>

definition scenario_db_after :: db where
  "scenario_db_after =
     \<lparr>profiles = [example_profile\<lparr>risk_level := ''red''\<rparr>], checkins = [],
      tickets = [auto_ticket 1 ''psychological'' (Note_mental_bad 3),
                 auto_ticket 1 ''job'' (Note_unemployed 3),
                 auto_ticket 1 ''social'' (Note_family_problems 3)],
      notifications =
        [\<lparr>notification_user = caseworker, message = Alert_psychological ''Ahmed'',
          link = ''/caseworker/profile/1/'', is_read = False\<rparr>,
         \<lparr>notification_user = beneficiary, message = Risk_red,
          link = ''/beneficiary/dashboard/'', is_read = False\<rparr>]\<rparr>"

definition scenario_result :: processing_result where
  "scenario_result =
     \<lparr>old_risk_level = ''green'', new_risk_level = ''red'', risk_changed = True,
      created_tickets =
        [auto_ticket 1 ''psychological'' (Note_mental_bad 3),
         auto_ticket 1 ''job'' (Note_unemployed 3),
         auto_ticket 1 ''social'' (Note_family_problems 3)]\<rparr>"





text \<open>A profile with a given release date, for the examples.\<close>

definition profile_released :: "int option \<Rightarrow> release_profile" where
  "profile_released rd =
     \<lparr>profile_id = 1, profile_user = \<lparr>user_id = 1, full_name = ''A''\<rparr>,
      release_date = rd, end_of_followup_date = map_option (\<lambda>d. d + 365) rd,
      risk_level = ''green'', assigned_case_worker = None\<rparr>"

section \<open>Properties\<close>

subsection \<open>Risk classification\<close>

lemma any_red:
  "any (red_conditions c) \<longleftrightarrow> mental_state c = ''bad'' \<or> housing_status c = ''homeless''"
  by (simp add: any_def red_conditions_def)

lemma any_yellow:
  "any (yellow_conditions c) \<longleftrightarrow>
     job_status c = ''unemployed'' \<or> family_status c = ''problematic'' \<or>
     mental_state c = ''stressed'' \<or> family_status c = ''no_contact''"
  by (simp add: any_def yellow_conditions_def)

lemma calculate_risk_level_cases:
  "calculate_risk_level c = ''red'' \<or> calculate_risk_level c = ''yellow'' \<or>
   calculate_risk_level c = ''green''"
  by (simp add: calculate_risk_level_def)

text \<open>
  C1. The classification is \<open>red\<close> when the mental state is \<open>bad\<close> or the housing status
  is \<open>homeless\<close>, whatever the other fields hold; otherwise \<open>yellow\<close> when the job status is
  \<open>unemployed\<close>, the family status is \<open>problematic\<close> or \<open>no_contact\<close>, or the mental state is
  \<open>stressed\<close>; otherwise \<open>green\<close>. A report that meets a red and a yellow condition is red.
\<close>

theorem classify_precedence:
  "calculate_risk_level c =
     (if mental_state c = ''bad'' \<or> housing_status c = ''homeless'' then ''red''
      else if job_status c = ''unemployed'' \<or> family_status c = ''problematic'' \<or>
              mental_state c = ''stressed'' \<or> family_status c = ''no_contact''
           then ''yellow''
      else ''green'')"
  unfolding calculate_risk_level_def any_red any_yellow by (rule refl)

text \<open>
  C10. The classification is defined for all strings in the four status fields. A report
  whose four fields all lie outside their choices lists meets no red and no yellow
  condition and is classified \<open>green\<close>.
\<close>

theorem classify_unrecognized_green:
  assumes "housing_status c \<notin> set HOUSING_STATUS_CHOICES"
    and "job_status c \<notin> set JOB_STATUS_CHOICES"
    and "mental_state c \<notin> set MENTAL_STATE_CHOICES"
    and "family_status c \<notin> set FAMILY_STATUS_CHOICES"
  shows "calculate_risk_level c = ''green''"
proof -
  from assms(1) have h: "housing_status c \<noteq> ''homeless''"
    by (auto simp: HOUSING_STATUS_CHOICES_def)
  from assms(2) have j: "job_status c \<noteq> ''unemployed''"
    by (auto simp: JOB_STATUS_CHOICES_def)
  from assms(3) have m: "mental_state c \<noteq> ''bad''" "mental_state c \<noteq> ''stressed''"
    by (auto simp: MENTAL_STATE_CHOICES_def)
  from assms(4) have f: "family_status c \<noteq> ''problematic''" "family_status c \<noteq> ''no_contact''"
    by (auto simp: FAMILY_STATUS_CHOICES_def)
  show ?thesis
    unfolding calculate_risk_level_def any_red any_yellow using h j m f by simp
qed

theorem classify_unrecognized_green_witness:
  "calculate_risk_level
     \<lparr>checkin_id = 1, release_profile_id = 1, month_index = 1,
      housing_status = ''homless'', job_status = ''jobless'',
      mental_state = ''awful'', family_status = ''estranged''\<rparr> = ''green''"
  by (rule classify_unrecognized_green)
     (simp_all add: HOUSING_STATUS_CHOICES_def JOB_STATUS_CHOICES_def
        MENTAL_STATE_CHOICES_def FAMILY_STATUS_CHOICES_def)

subsection \<open>Programme timeline\<close>

lemma floor_div_30: "\<lfloor>rat_of_int k / 30\<rfloor> = k div 30"
  using floor_divide_of_int_eq [of k 30, where ?'a = rat] by simp

lemma current_month_Some:
  "release_date p = Some rd \<Longrightarrow> current_month p today = min ((today - rd) div 30 + 1) 12"
  by (simp add: current_month_def)

lemma current_month_spec_Some:
  "current_month_spec (Some rd) today = max 1 (min 12 ((today - rd) div 30 + 1))"
  unfolding current_month_spec_def floor_div_30 by simp

lemma current_month_le_12: "current_month p today \<le> 12"
  by (simp add: current_month_def split: option.split)


text \<open>
  C5, as the code has it. \<open>current_month\<close> is \<open>0\<close> when the release date is absent and
  otherwise \<open>(today - release_date) div 30 + 1\<close> capped at \<open>12\<close> from above; there is no
  lower clamp. It never raises and never exceeds \<open>12\<close>. For a release date that is not
  after today the result lies in \<open>1..12\<close> and agrees with the clamp to \<open>[1, 12]\<close>.
\<close>

theorem current_month_capped_above:
  "current_month p today \<le> 12 \<and>
   (release_date p = None \<longrightarrow> current_month p today = 0) \<and>
   (\<forall>rd. release_date p = Some rd \<longrightarrow>
      current_month p today = min ((today - rd) div 30 + 1) 12 \<and>
      (rd \<le> today \<longrightarrow>
         1 \<le> current_month p today \<and>
         current_month p today = current_month_spec (Some rd) today))"
proof (intro conjI allI impI)
  show "current_month p today \<le> 12" by (rule current_month_le_12)
next
  assume "release_date p = None"
  then show "current_month p today = 0" by (simp add: current_month_def)
next
  fix rd assume "release_date p = Some rd"
  then show "current_month p today = min ((today - rd) div 30 + 1) 12"
    by (rule current_month_Some)
next
  fix rd assume rd: "release_date p = Some rd" and le: "rd \<le> today"
  from le have "0 \<le> (today - rd) div 30" by simp
  with rd show "1 \<le> current_month p today"
    by (simp add: current_month_Some)
next
  fix rd assume rd: "release_date p = Some rd" and le: "rd \<le> today"
  from le have "0 \<le> (today - rd) div 30" by simp
  with rd show "current_month p today = current_month_spec (Some rd) today"
    by (simp add: current_month_Some current_month_spec_Some)
qed

theorem current_month_capped_above_witness:
  "current_month (profile_released (Some 739000)) 739090 = 4 \<and>
   current_month (profile_released None) 739090 = 0 \<and>
   current_month_spec (Some 739000) 739090 = 4"
  using current_month_capped_above [of "profile_released (Some 739000)" 739090]
    current_month_capped_above [of "profile_released None" 739090]
  by (simp add: profile_released_def)

text \<open>
  As the specification words it, the property fails for a release date more than 30 days
  after today: 100 days ahead the code returns \<open>-3\<close>, outside \<open>0..12\<close>, where the clamp to \<open>[1, 12]\<close> gives \<open>1\<close>.
\<close>

theorem current_month_future_release_counterexample:
  "current_month (profile_released (Some 739100)) 739000 = - 3 \<and>
   current_month_spec (Some 739100) 739000 = 1 \<and>
   \<not> (0 \<le> current_month (profile_released (Some 739100)) 739000)"
  by (simp add: current_month_def current_month_spec_Some profile_released_def)

lemma percentage_truncated:
  assumes "0 \<le> m" and "m \<le> 12"
  shows "min 100 (py_int (float_mul (float_div (of_int m) 12) 100)) = (100 * m) div 12"
proof -
  from assms have "m = 0 \<or> m = 1 \<or> m = 2 \<or> m = 3 \<or> m = 4 \<or> m = 5 \<or> m = 6 \<or>
      m = 7 \<or> m = 8 \<or> m = 9 \<or> m = 10 \<or> m = 11 \<or> m = 12"
    by arith
  then show ?thesis
    by (elim disjE; hypsubst; code_simp)
qed

text \<open>
  C6, as the code has it. The percentage is \<open>min(100, int(m / 12 * 100))\<close>: the float is
  truncated, not rounded. For every month \<open>m\<close> in \<open>0..12\<close> this is \<open>100 * m div 12\<close>. With a
  release date 330 days before today the month is \<open>12\<close> and the percentage is \<open>100\<close>.
\<close>

theorem progress_percentage_truncates:
  "progress_percentage p today \<le> 100 \<and>
   (0 \<le> current_month p today \<longrightarrow>
      progress_percentage p today = (100 * current_month p today) div 12) \<and>
   (release_date p = Some (today - 330) \<longrightarrow>
      current_month p today = 12 \<and> progress_percentage p today = 100)"
proof (intro conjI impI)
  show "progress_percentage p today \<le> 100"
    by (simp add: progress_percentage_def)
next
  assume "0 \<le> current_month p today"
  then show "progress_percentage p today = (100 * current_month p today) div 12"
    unfolding progress_percentage_def
    by (rule percentage_truncated) (rule current_month_le_12)
next
  assume rd: "release_date p = Some (today - 330)"
  then show m: "current_month p today = 12"
    by (simp add: current_month_Some)
  have "progress_percentage p today = (100 * current_month p today) div 12"
    unfolding progress_percentage_def
    by (rule percentage_truncated) (simp_all add: m)
  then show "progress_percentage p today = 100" by (simp add: m)
qed

theorem progress_percentage_truncates_witness:
  "current_month (profile_released (Some 739000)) 739330 = 12 \<and>
   progress_percentage (profile_released (Some 739000)) 739330 = 100 \<and>
   progress_percentage (profile_released (Some 739000)) 739090 = 33"
proof -
  have rd: "release_date (profile_released (Some 739000)) = Some (739330 - 330)"
    by (simp add: profile_released_def)
  have m: "current_month (profile_released (Some 739000)) 739090 = 4"
    by (simp add: current_month_def profile_released_def)
  from progress_percentage_truncates [of "profile_released (Some 739000)" 739330] rd
    progress_percentage_truncates [of "profile_released (Some 739000)" 739090] m
  show ?thesis by simp
qed

text \<open>
  As the specification words it, the property fails in the second month: 45 days after
  release the code returns
  \<open>int(16.666...) = 16\<close>, where rounding gives \<open>17\<close>.
\<close>

theorem progress_percentage_round_counterexample:
  "current_month (profile_released (Some 739000)) 739045 = 2 \<and>
   progress_percentage (profile_released (Some 739000)) 739045 = 16 \<and>
   progress_percentage_spec 2 = 17"
proof -
  have m: "current_month (profile_released (Some 739000)) 739045 = 2"
    by (simp add: current_month_def profile_released_def)
  have c: "py_int (float_mul (float_div (of_int 2) 12) 100) = 16"
    by code_simp
  have s: "py_round (float_mul (float_div (of_int 2) 12) 100) = 17"
    by code_simp
  show ?thesis
    using c s by (simp add: m progress_percentage_def progress_percentage_spec_def)
qed

subsection \<open>The ticket blocks\<close>

text \<open>Each block of the source is an instance of \<open>ticket_block\<close>.\<close>

lemma psychological_block_eq:
  "psychological_block c p s =
     ticket_block (mental_state c = ''bad'') ''psychological'' (Note_mental_bad (month_index c))
       (Some (Alert_psychological (full_name (profile_user p)))) p s"
  by (cases s)
     (auto simp: psychological_block_def ticket_block_def get_or_create_def auto_ticket_def Let_def
        caseworker_alert_def notification_create_def
        split: list.splits option.splits)

lemma housing_block_eq:
  "housing_block c p s =
     ticket_block (housing_status c = ''homeless'') ''housing'' (Note_homeless (month_index c))
       (Some (Alert_homeless (full_name (profile_user p)))) p s"
  by (cases s)
     (auto simp: housing_block_def ticket_block_def get_or_create_def auto_ticket_def Let_def
        caseworker_alert_def notification_create_def
        split: list.splits option.splits)

lemma job_block_eq:
  "job_block c p s =
     ticket_block (job_status c = ''unemployed'') ''job'' (Note_unemployed (month_index c))
       None p s"
  by (cases s)
     (auto simp: job_block_def ticket_block_def get_or_create_def auto_ticket_def Let_def
        split: list.splits option.splits)

lemma social_block_eq:
  "social_block c p s =
     ticket_block (family_status c = ''problematic'' \<or> family_status c = ''no_contact'')
       ''social'' (Note_family_problems (month_index c)) None p s"
  by (cases s)
     (auto simp: social_block_def ticket_block_def get_or_create_def auto_ticket_def Let_def
        split: list.splits option.splits)

lemma ticket_block_skip [simp]: "ticket_block False ty n alert p s = Inr s"
  by (simp add: ticket_block_def)

lemma ticket_block_fresh:
  "filter (lookup (profile_id p) ty ''open'' True) (tickets (fst s)) = [] \<Longrightarrow>
   ticket_block True ty n alert p s =
     Inr ((fst s)\<lparr>tickets := tickets (fst s) @ [auto_ticket (profile_id p) ty n],
            notifications := notifications (fst s) @
              (case alert of None \<Rightarrow> [] | Some m \<Rightarrow> caseworker_alert p m)\<rparr>,
          snd s @ [auto_ticket (profile_id p) ty n])"
  by (simp add: ticket_block_def)

lemma ticket_block_found:
  "filter (lookup (profile_id p) ty ''open'' True) (tickets (fst s)) = [t] \<Longrightarrow>
   ticket_block trig ty n alert p s = Inr s"
  by (simp add: ticket_block_def)

lemma lookup_auto_ticket [simp]:
  "lookup pid' ty' st a (auto_ticket pid ty n) \<longleftrightarrow> pid = pid' \<and> ty = ty' \<and> st = ''open'' \<and> a"
  by (auto simp: lookup_def auto_ticket_def)

text \<open>What a block that returns has done.\<close>

lemma ticket_block_Inr:
  assumes "ticket_block trig ty n alert p s = Inr s'"
  defines "fresh \<equiv> trig \<and> filter (lookup (profile_id p) ty ''open'' True) (tickets (fst s)) = []"
  shows "tickets (fst s') = tickets (fst s) @ (if fresh then [auto_ticket (profile_id p) ty n] else [])"
    and "snd s' = snd s @ (if fresh then [auto_ticket (profile_id p) ty n] else [])"
    and "notifications (fst s') = notifications (fst s) @
           (if fresh then (case alert of None \<Rightarrow> [] | Some m \<Rightarrow> caseworker_alert p m) else [])"
    and "profiles (fst s') = profiles (fst s)"
    and "checkins (fst s') = checkins (fst s)"
    and "trig \<Longrightarrow> \<exists>t. filter (lookup (profile_id p) ty ''open'' True) (tickets (fst s')) = [t]"
  using assms(1) unfolding fresh_def
  by (auto simp: ticket_block_def split: if_splits list.splits)

lemma ticket_block_other:
  assumes "ticket_block trig ty n alert p s = Inr s'" and "ty' \<noteq> ty"
  shows "filter (lookup pid' ty' st a) (tickets (fst s')) = filter (lookup pid' ty' st a) (tickets (fst s))"
  using assms by (auto simp: ticket_block_Inr(1))

lemma lookup_open_auto:
  "filter (lookup pid ty ''open'' True) ts =
     filter (\<lambda>t. (ticket_profile_id t, ticket_type t) = (pid, ty))
       (filter (\<lambda>t. status t = ''open'' \<and> is_auto_generated t) ts)"
  by (induction ts) (auto simp: lookup_def)

lemma distinct_map_filter_le1:
  "distinct (map f xs) \<Longrightarrow> length (filter (\<lambda>x. f x = k) xs) \<le> Suc 0"
proof (induction xs)
  case Nil
  then show ?case by simp
next
  case (Cons x xs)
  show ?case
  proof (cases "f x = k")
    case True
    with Cons.prems have "k \<notin> f ` set xs" by auto
    then have "filter (\<lambda>x. f x = k) xs = []" by (auto simp: filter_empty_conv)
    with True show ?thesis by simp
  next
    case False
    with Cons show ?thesis by simp
  qed
qed

lemma unique_lookup_le1:
  "distinct (open_auto_keys ts) \<Longrightarrow> length (filter (lookup pid ty ''open'' True) ts) \<le> Suc 0"
  unfolding lookup_open_auto open_auto_keys_def by (rule distinct_map_filter_le1)

lemma unique_lookup_cases:
  assumes "distinct (open_auto_keys ts)"
  shows "filter (lookup pid ty ''open'' True) ts = [] \<or>
         (\<exists>t. filter (lookup pid ty ''open'' True) ts = [t])"
proof -
  from assms have "length (filter (lookup pid ty ''open'' True) ts) \<le> Suc 0"
    by (rule unique_lookup_le1)
  then show ?thesis
    by (cases "filter (lookup pid ty ''open'' True) ts") (auto simp: length_Suc_conv)
qed

lemma open_auto_keys_append_auto:
  "open_auto_keys (ts @ [auto_ticket pid ty n]) = open_auto_keys ts @ [(pid, ty)]"
  by (simp add: open_auto_keys_def auto_ticket_def)

lemma lookup_empty_key:
  assumes "filter (lookup pid ty ''open'' True) ts = []"
  shows "(pid, ty) \<notin> set (open_auto_keys ts)"
  using assms unfolding lookup_open_auto open_auto_keys_def
  by (auto simp: filter_empty_conv)

lemma ticket_block_unique:
  assumes "distinct (open_auto_keys (tickets (fst s)))"
  shows "\<exists>s'. ticket_block trig ty n alert p s = Inr s' \<and>
              distinct (open_auto_keys (tickets (fst s')))"
proof (cases trig)
  case False
  with assms show ?thesis by simp
next
  case True
  from unique_lookup_cases [OF assms, of "profile_id p" ty]
  show ?thesis
  proof (elim disjE exE)
    assume e: "filter (lookup (profile_id p) ty ''open'' True) (tickets (fst s)) = []"
    from lookup_empty_key [OF e] assms show ?thesis
      by (simp add: True ticket_block_fresh [OF e] open_auto_keys_append_auto)
  next
    fix t assume "filter (lookup (profile_id p) ty ''open'' True) (tickets (fst s)) = [t]"
    from ticket_block_found [OF this] assms show ?thesis by simp
  qed
qed

subsection \<open>The run of process\_checkin\<close>

lemma get_profile_id: "get_profile d k = Some p \<Longrightarrow> profile_id p = k"
  by (auto simp: get_profile_def find_Some_iff)

lemma get_profile_ex: "get_profile d k = Some p \<Longrightarrow> list_ex (\<lambda>row. profile_id row = k) (profiles d)"
  by (auto simp: get_profile_def find_Some_iff list_ex_iff)

lemma find_map_update:
  "find (\<lambda>row. profile_id row = k) rows = Some p \<Longrightarrow> profile_id q = k \<Longrightarrow>
   find (\<lambda>row. profile_id row = k) (map (\<lambda>row. if profile_id row = k then q else row) rows) = Some q"
  by (induction rows) (auto split: if_splits)

lemma save_fields:
  assumes "release_profile_save self d = (p, d0)"
  shows "profile_id p = profile_id self" "risk_level p = risk_level self"
    "profile_user p = profile_user self" "assigned_case_worker p = assigned_case_worker self"
    "tickets d0 = tickets d" "notifications d0 = notifications d" "checkins d0 = checkins d"
  using assms
  by (auto simp: release_profile_save_def Let_def split: option.splits)

lemma save_get:
  assumes "release_profile_save self d = (p, d0)" and "get_profile d (profile_id self) = Some q"
  shows "get_profile d0 (profile_id self) = Some p"
proof -
  have id: "profile_id p = profile_id self" using assms(1) by (rule save_fields)
  from assms(2) have ex: "list_ex (\<lambda>row. profile_id row = profile_id p) (profiles d)"
    unfolding id by (rule get_profile_ex)
  from assms(1) ex have "profiles d0 =
      map (\<lambda>row. if profile_id row = profile_id p then p else row) (profiles d)"
    by (auto simp: release_profile_save_def Let_def split: option.splits)
  with assms(2) show ?thesis
    unfolding get_profile_def id [symmetric] by (simp add: find_map_update)
qed

lemma risk_messages_level:
  "risk_messages (calculate_risk_level c) =
     Some (if calculate_risk_level c = ''green'' then Risk_green
           else if calculate_risk_level c = ''yellow'' then Risk_yellow else Risk_red)"
  using calculate_risk_level_cases [of c] by (auto simp: risk_messages_def)

lemma process_checkin_blocks:
  assumes "get_profile d (release_profile_id c) = Some p0"
    and "release_profile_save (p0\<lparr>risk_level := calculate_risk_level c\<rparr>) d = (p, d0)"
    and "psychological_block c p (d0, []) = Inr s1"
    and "housing_block c p s1 = Inr s2"
    and "job_block c p s2 = Inr s3"
    and "social_block c p s3 = Inr s4"
  shows "process_checkin d c =
     ((fst s4)\<lparr>notifications := notifications (fst s4) @
          (if calculate_risk_level c \<noteq> risk_level p0
           then [beneficiary_message p (calculate_risk_level c)] else [])\<rparr>,
      Inr \<lparr>old_risk_level = risk_level p0, new_risk_level = calculate_risk_level c,
           risk_changed = (risk_level p0 \<noteq> calculate_risk_level c),
           created_tickets = snd s4\<rparr>)"
  using assms
  by (cases s4)
     (simp add: process_checkin_def Let_def risk_messages_level notification_create_def
        beneficiary_message_def)

lemma process_checkin_InrE:
  assumes "process_checkin d c = (d', Inr r)"
  obtains p0 p d0 s1 s2 s3 s4 where
    "get_profile d (release_profile_id c) = Some p0"
    "release_profile_save (p0\<lparr>risk_level := calculate_risk_level c\<rparr>) d = (p, d0)"
    "psychological_block c p (d0, []) = Inr s1"
    "housing_block c p s1 = Inr s2"
    "job_block c p s2 = Inr s3"
    "social_block c p s3 = Inr s4"
  using assms
  by (auto simp: process_checkin_def Let_def split: option.splits sum.splits prod.splits if_splits)


lemma filter_lookup_issued [simp]:
  "ty' \<noteq> ty \<Longrightarrow> filter (lookup pid' ty' st a) (issued ts pid trig ty n) = []"
  by (simp add: issued_def)

lemma run_blocks:
  assumes b1: "psychological_block c p (d0, []) = Inr s1"
    and b2: "housing_block c p s1 = Inr s2"
    and b3: "job_block c p s2 = Inr s3"
    and b4: "social_block c p s3 = Inr s4"
  defines "pid \<equiv> profile_id p" and "ts \<equiv> tickets d0"
  defines "n1 \<equiv> issued ts pid (mental_state c = ''bad'') ''psychological''
                   (Note_mental_bad (month_index c))"
    and "n2 \<equiv> issued ts pid (housing_status c = ''homeless'') ''housing''
                   (Note_homeless (month_index c))"
    and "n3 \<equiv> issued ts pid (job_status c = ''unemployed'') ''job''
                   (Note_unemployed (month_index c))"
    and "n4 \<equiv> issued ts pid
                   (family_status c = ''problematic'' \<or> family_status c = ''no_contact'')
                   ''social'' (Note_family_problems (month_index c))"
  shows "tickets (fst s4) = ts @ n1 @ n2 @ n3 @ n4"
    and "snd s4 = n1 @ n2 @ n3 @ n4"
    and "notifications (fst s4) = notifications d0 @
           (if n1 = [] then []
            else caseworker_alert p (Alert_psychological (full_name (profile_user p)))) @
           (if n2 = [] then []
            else caseworker_alert p (Alert_homeless (full_name (profile_user p))))"
    and "profiles (fst s4) = profiles d0"
    and "checkins (fst s4) = checkins d0"
proof -
  note f1 = ticket_block_Inr [OF b1 [unfolded psychological_block_eq]]
  note f2 = ticket_block_Inr [OF b2 [unfolded housing_block_eq]]
  note f3 = ticket_block_Inr [OF b3 [unfolded job_block_eq]]
  note f4 = ticket_block_Inr [OF b4 [unfolded social_block_eq]]
  have t1: "tickets (fst s1) = ts @ n1"
    using f1(1) by (simp add: n1_def issued_def ts_def pid_def)
  have t2: "tickets (fst s2) = ts @ n1 @ n2"
    using f2(1) by (simp add: t1 n1_def n2_def issued_def pid_def)
  have t3: "tickets (fst s3) = ts @ n1 @ n2 @ n3"
    using f3(1) by (simp add: t2 n1_def n2_def n3_def issued_def pid_def)
  show t4: "tickets (fst s4) = ts @ n1 @ n2 @ n3 @ n4"
    using f4(1) by (simp add: t3 n1_def n2_def n3_def n4_def issued_def pid_def)
  have c1: "snd s1 = n1"
    using f1(2) by (simp add: n1_def issued_def ts_def pid_def)
  have c2: "snd s2 = n1 @ n2"
    using f2(2) by (simp add: c1 t1 n1_def n2_def issued_def pid_def)
  have c3: "snd s3 = n1 @ n2 @ n3"
    using f3(2) by (simp add: c2 t2 n1_def n2_def n3_def issued_def pid_def)
  show "snd s4 = n1 @ n2 @ n3 @ n4"
    using f4(2) by (simp add: c3 t3 n1_def n2_def n3_def n4_def issued_def pid_def)
  have m1: "notifications (fst s1) = notifications d0 @
      (if n1 = [] then []
       else caseworker_alert p (Alert_psychological (full_name (profile_user p))))"
    using f1(3) by (simp add: n1_def issued_def ts_def pid_def)
  have m2: "notifications (fst s2) = notifications (fst s1) @
      (if n2 = [] then []
       else caseworker_alert p (Alert_homeless (full_name (profile_user p))))"
    using f2(3) by (simp add: t1 n1_def n2_def issued_def pid_def)
  have m3: "notifications (fst s3) = notifications (fst s2)"
    using f3(3) by simp
  have m4: "notifications (fst s4) = notifications (fst s3)"
    using f4(3) by simp
  show "notifications (fst s4) = notifications d0 @
           (if n1 = [] then []
            else caseworker_alert p (Alert_psychological (full_name (profile_user p)))) @
           (if n2 = [] then []
            else caseworker_alert p (Alert_homeless (full_name (profile_user p))))"
    by (simp add: m4 m3 m2 m1)
  show "profiles (fst s4) = profiles d0"
    by (simp add: f1(4) f2(4) f3(4) f4(4))
  show "checkins (fst s4) = checkins d0"
    by (simp add: f1(5) f2(5) f3(5) f4(5))
qed

lemma run_blocks_single:
  assumes b1: "psychological_block c p (d0, []) = Inr s1"
    and b2: "housing_block c p s1 = Inr s2"
    and b3: "job_block c p s2 = Inr s3"
    and b4: "social_block c p s3 = Inr s4"
  shows "mental_state c = ''bad'' \<Longrightarrow>
           \<exists>t. filter (lookup (profile_id p) ''psychological'' ''open'' True) (tickets (fst s4)) = [t]"
    and "housing_status c = ''homeless'' \<Longrightarrow>
           \<exists>t. filter (lookup (profile_id p) ''housing'' ''open'' True) (tickets (fst s4)) = [t]"
    and "job_status c = ''unemployed'' \<Longrightarrow>
           \<exists>t. filter (lookup (profile_id p) ''job'' ''open'' True) (tickets (fst s4)) = [t]"
    and "family_status c = ''problematic'' \<or> family_status c = ''no_contact'' \<Longrightarrow>
           \<exists>t. filter (lookup (profile_id p) ''social'' ''open'' True) (tickets (fst s4)) = [t]"
proof -
  note e1 = b1 [unfolded psychological_block_eq]
  note e2 = b2 [unfolded housing_block_eq]
  note e3 = b3 [unfolded job_block_eq]
  note e4 = b4 [unfolded social_block_eq]
  show "\<exists>t. filter (lookup (profile_id p) ''psychological'' ''open'' True) (tickets (fst s4)) = [t]"
    if "mental_state c = ''bad''"
    using ticket_block_Inr(6) [OF e1 that]
    by (simp add: ticket_block_other [OF e4] ticket_block_other [OF e3]
          ticket_block_other [OF e2])
  show "\<exists>t. filter (lookup (profile_id p) ''housing'' ''open'' True) (tickets (fst s4)) = [t]"
    if "housing_status c = ''homeless''"
    using ticket_block_Inr(6) [OF e2 that]
    by (simp add: ticket_block_other [OF e4] ticket_block_other [OF e3])
  show "\<exists>t. filter (lookup (profile_id p) ''job'' ''open'' True) (tickets (fst s4)) = [t]"
    if "job_status c = ''unemployed''"
    using ticket_block_Inr(6) [OF e3 that]
    by (simp add: ticket_block_other [OF e4])
  show "\<exists>t. filter (lookup (profile_id p) ''social'' ''open'' True) (tickets (fst s4)) = [t]"
    if "family_status c = ''problematic'' \<or> family_status c = ''no_contact''"
    using ticket_block_Inr(6) [OF e4 that] .
qed

lemma ticket_block_idle:
  assumes "trig \<Longrightarrow> \<exists>t. filter (lookup (profile_id p) ty ''open'' True) (tickets (fst s)) = [t]"
  shows "ticket_block trig ty n alert p s = Inr s"
proof (cases trig)
  case True
  from assms [OF True] obtain t where
    "filter (lookup (profile_id p) ty ''open'' True) (tickets (fst s)) = [t]" ..
  then show ?thesis by (rule ticket_block_found)
next
  case False
  then show ?thesis by simp
qed

lemma save_idem:
  assumes s: "release_profile_save self d = (p, d0)"
    and g: "get_profile d (profile_id self) = Some q"
    and d1: "profiles d1 = profiles d0"
  shows "release_profile_save p d1 = (p, d1)"
proof -
  let ?f = "\<lambda>row. if profile_id row = profile_id p then p else row"
  have id: "profile_id p = profile_id self" using s by (rule save_fields)
  from g have ex: "list_ex (\<lambda>row. profile_id row = profile_id p) (profiles d)"
    unfolding id by (rule get_profile_ex)
  from s ex have pr: "profiles d0 = map ?f (profiles d)"
    by (auto simp: release_profile_save_def Let_def split: option.splits)
  from s have pre: "release_date p = None \<or> end_of_followup_date p \<noteq> None"
    by (auto simp: release_profile_save_def Let_def split: option.splits)
  have ex1: "list_ex (\<lambda>row. profile_id row = profile_id p) (profiles d1)"
    using ex by (auto simp: d1 pr list_ex_iff)
  have "map ?f (profiles d1) = profiles d1"
    by (simp add: d1 pr)
  with ex1 pre show ?thesis
    by (auto simp: release_profile_save_def Let_def split: option.splits)
qed

lemma process_checkin_repeat:
  assumes "process_checkin d c = (d1, Inr r1)"
  shows "process_checkin d1 c =
     (d1, Inr \<lparr>old_risk_level = calculate_risk_level c,
               new_risk_level = calculate_risk_level c,
               risk_changed = False, created_tickets = []\<rparr>)"
proof -
  from assms obtain p0 p d0 s1 s2 s3 s4 where
    g: "get_profile d (release_profile_id c) = Some p0"
    and s: "release_profile_save (p0\<lparr>risk_level := calculate_risk_level c\<rparr>) d = (p, d0)"
    and b1: "psychological_block c p (d0, []) = Inr s1"
    and b2: "housing_block c p s1 = Inr s2"
    and b3: "job_block c p s2 = Inr s3"
    and b4: "social_block c p s3 = Inr s4"
    by (rule process_checkin_InrE)
  note run = run_blocks [OF b1 b2 b3 b4]
  note single = run_blocks_single [OF b1 b2 b3 b4]
  from process_checkin_blocks [OF g s b1 b2 b3 b4] assms
  have d1: "d1 = (fst s4)\<lparr>notifications := notifications (fst s4) @
          (if calculate_risk_level c \<noteq> risk_level p0
           then [beneficiary_message p (calculate_risk_level c)] else [])\<rparr>"
    by simp
  have k: "profile_id (p0\<lparr>risk_level := calculate_risk_level c\<rparr>) = release_profile_id c"
    using get_profile_id [OF g] by simp
  have pr: "profiles d1 = profiles d0" by (simp add: d1 run(4))
  have tk: "tickets d1 = tickets (fst s4)" by (simp add: d1)
  have lvl: "risk_level p = calculate_risk_level c"
    using save_fields(2) [OF s] by simp
  have g1: "get_profile d1 (release_profile_id c) = Some p"
    using save_get [OF s, unfolded k, OF g] by (simp add: get_profile_def pr)
  have "get_profile d (profile_id (p0\<lparr>risk_level := calculate_risk_level c\<rparr>)) = Some p0"
    using g by (simp add: k)
  with s have "release_profile_save p d1 = (p, d1)"
    using pr by (rule save_idem)
  moreover have "p\<lparr>risk_level := calculate_risk_level c\<rparr> = p"
    by (simp add: lvl [symmetric])
  ultimately have s': "release_profile_save (p\<lparr>risk_level := calculate_risk_level c\<rparr>) d1 = (p, d1)"
    by simp
  have i1: "psychological_block c p (d1, []) = Inr (d1, [])"
    unfolding psychological_block_eq by (rule ticket_block_idle) (simp add: tk single(1))
  have i2: "housing_block c p (d1, []) = Inr (d1, [])"
    unfolding housing_block_eq by (rule ticket_block_idle) (simp add: tk single(2))
  have i3: "job_block c p (d1, []) = Inr (d1, [])"
    unfolding job_block_eq by (rule ticket_block_idle) (simp add: tk single(3))
  have i4: "social_block c p (d1, []) = Inr (d1, [])"
    unfolding social_block_eq by (rule ticket_block_idle) (simp add: tk single(4))
  from process_checkin_blocks [OF g1 s' i1 i2 i3 i4] show ?thesis
    by (simp add: lvl)
qed

lemma process_checkin_unique:
  assumes u: "open_auto_unique d" and g: "get_profile d (release_profile_id c) = Some p0"
  shows "\<exists>d1 r1. process_checkin d c = (d1, Inr r1) \<and> open_auto_unique d1"
proof -
  obtain p d0 where s: "release_profile_save (p0\<lparr>risk_level := calculate_risk_level c\<rparr>) d = (p, d0)"
    by (cases "release_profile_save (p0\<lparr>risk_level := calculate_risk_level c\<rparr>) d")
  from u have u0: "distinct (open_auto_keys (tickets (fst (d0, []::support_ticket list))))"
    by (simp add: open_auto_unique_def save_fields(5) [OF s])
  from ticket_block_unique [OF u0] obtain s1 where
    b1: "psychological_block c p (d0, []) = Inr s1"
    and u1: "distinct (open_auto_keys (tickets (fst s1)))"
    unfolding psychological_block_eq by blast
  from ticket_block_unique [OF u1] obtain s2 where
    b2: "housing_block c p s1 = Inr s2"
    and u2: "distinct (open_auto_keys (tickets (fst s2)))"
    unfolding housing_block_eq by blast
  from ticket_block_unique [OF u2] obtain s3 where
    b3: "job_block c p s2 = Inr s3"
    and u3: "distinct (open_auto_keys (tickets (fst s3)))"
    unfolding job_block_eq by blast
  from ticket_block_unique [OF u3] obtain s4 where
    b4: "social_block c p s3 = Inr s4"
    and u4: "distinct (open_auto_keys (tickets (fst s4)))"
    unfolding social_block_eq by blast
  from process_checkin_blocks [OF g s b1 b2 b3 b4] u4 show ?thesis
    by (simp add: open_auto_unique_def)
qed

lemma caseworker_alert_cong:
  "profile_id p = profile_id q \<Longrightarrow> assigned_case_worker p = assigned_case_worker q \<Longrightarrow>
   caseworker_alert p m = caseworker_alert q m"
  by (simp add: caseworker_alert_def caseworker_profile_link_def split: option.split)

lemma beneficiary_message_cong:
  "profile_user p = profile_user q \<Longrightarrow> beneficiary_message p l = beneficiary_message q l"
  by (simp add: beneficiary_message_def)

lemma process_checkin_success:
  assumes run: "process_checkin d c = (d', Inr r)"
    and g: "get_profile d (release_profile_id c) = Some p0"
  defines "k \<equiv> release_profile_id c" and "ts \<equiv> tickets d"
  defines "n1 \<equiv> issued ts k (mental_state c = ''bad'') ''psychological''
                   (Note_mental_bad (month_index c))"
    and "n2 \<equiv> issued ts k (housing_status c = ''homeless'') ''housing''
                   (Note_homeless (month_index c))"
    and "n3 \<equiv> issued ts k (job_status c = ''unemployed'') ''job''
                   (Note_unemployed (month_index c))"
    and "n4 \<equiv> issued ts k
                   (family_status c = ''problematic'' \<or> family_status c = ''no_contact'')
                   ''social'' (Note_family_problems (month_index c))"
  shows "created_tickets r = n1 @ n2 @ n3 @ n4"
    and "tickets d' = tickets d @ n1 @ n2 @ n3 @ n4"
    and "notifications d' = notifications d @
           (if n1 = [] then []
            else caseworker_alert p0 (Alert_psychological (full_name (profile_user p0)))) @
           (if n2 = [] then []
            else caseworker_alert p0 (Alert_homeless (full_name (profile_user p0)))) @
           (if calculate_risk_level c \<noteq> risk_level p0
            then [beneficiary_message p0 (calculate_risk_level c)] else [])"
    and "old_risk_level r = risk_level p0"
    and "new_risk_level r = calculate_risk_level c"
    and "risk_changed r \<longleftrightarrow> risk_level p0 \<noteq> calculate_risk_level c"
    and "\<exists>p. get_profile d' k = Some p \<and> risk_level p = calculate_risk_level c"
    and "checkins d' = checkins d"
proof -
  from run obtain q0 p d0 s1 s2 s3 s4 where
    g': "get_profile d (release_profile_id c) = Some q0"
    and s: "release_profile_save (q0\<lparr>risk_level := calculate_risk_level c\<rparr>) d = (p, d0)"
    and b1: "psychological_block c p (d0, []) = Inr s1"
    and b2: "housing_block c p s1 = Inr s2"
    and b3: "job_block c p s2 = Inr s3"
    and b4: "social_block c p s3 = Inr s4"
    by (rule process_checkin_InrE)
  from g g' have q0: "q0 = p0" by simp
  note sf = save_fields [OF s, unfolded q0, simplified]
  have pk: "profile_id p = k"
    using sf(1) get_profile_id [OF g] by (simp add: k_def)
  note rb = run_blocks [OF b1 b2 b3 b4, unfolded pk sf(3) sf(5), folded ts_def,
      folded n1_def n2_def n3_def n4_def]
  have eq: "process_checkin d c =
     ((fst s4)\<lparr>notifications := notifications (fst s4) @
          (if calculate_risk_level c \<noteq> risk_level p0
           then [beneficiary_message p (calculate_risk_level c)] else [])\<rparr>,
      Inr \<lparr>old_risk_level = risk_level p0, new_risk_level = calculate_risk_level c,
           risk_changed = (risk_level p0 \<noteq> calculate_risk_level c),
           created_tickets = snd s4\<rparr>)"
    using process_checkin_blocks [OF g' s b1 b2 b3 b4] by (simp add: q0)
  from eq run have d': "d' = (fst s4)\<lparr>notifications := notifications (fst s4) @
          (if calculate_risk_level c \<noteq> risk_level p0
           then [beneficiary_message p (calculate_risk_level c)] else [])\<rparr>"
    and r: "r = \<lparr>old_risk_level = risk_level p0, new_risk_level = calculate_risk_level c,
           risk_changed = (risk_level p0 \<noteq> calculate_risk_level c),
           created_tickets = snd s4\<rparr>"
    by simp_all
  have ca: "caseworker_alert p m = caseworker_alert p0 m" for m
    by (rule caseworker_alert_cong) (simp_all add: sf)
  have bm: "beneficiary_message p l = beneficiary_message p0 l" for l
    by (rule beneficiary_message_cong) (simp add: sf)
  show "created_tickets r = n1 @ n2 @ n3 @ n4"
    by (simp add: r rb(2))
  show "tickets d' = tickets d @ n1 @ n2 @ n3 @ n4"
    by (simp add: d' rb(1) ts_def)
  show "notifications d' = notifications d @
           (if n1 = [] then []
            else caseworker_alert p0 (Alert_psychological (full_name (profile_user p0)))) @
           (if n2 = [] then []
            else caseworker_alert p0 (Alert_homeless (full_name (profile_user p0)))) @
           (if calculate_risk_level c \<noteq> risk_level p0
            then [beneficiary_message p0 (calculate_risk_level c)] else [])"
    by (simp add: d' rb(3) sf(6) ca bm)
  show "old_risk_level r = risk_level p0" by (simp add: r)
  show "new_risk_level r = calculate_risk_level c" by (simp add: r)
  show "risk_changed r \<longleftrightarrow> risk_level p0 \<noteq> calculate_risk_level c" by (simp add: r)
  have "get_profile d0 (profile_id (p0\<lparr>risk_level := calculate_risk_level c\<rparr>)) = Some p"
    using s [unfolded q0] by (rule save_get) (simp add: g get_profile_id [OF g])
  then have "get_profile d' k = Some p"
    by (simp add: get_profile_def d' rb(4) k_def get_profile_id [OF g])
  with sf(2) show "\<exists>p. get_profile d' k = Some p \<and> risk_level p = calculate_risk_level c"
    by simp
  show "checkins d' = checkins d"
    by (simp add: d' rb(5) sf(7))
qed

subsection \<open>The scenario, evaluated\<close>

lemma str_1: "str (Suc 0) = ''1''"
  by code_simp

lemmas engine_defs = caseworker_profile_link_def beneficiary_dashboard_link_def
  process_checkin_def get_profile_def release_profile_save_def psychological_block_def
  housing_block_def job_block_def social_block_def get_or_create_def lookup_def
  notification_create_def calculate_risk_level_def any_def red_conditions_def
  yellow_conditions_def risk_messages_def Let_def

lemmas example_defs =
  example_db_def example_profile_def scenario_checkin_def beneficiary_def caseworker_def
  auto_ticket_def

lemma scenario_run:
  "process_checkin example_db scenario_checkin = (scenario_db_after, Inr scenario_result)"
  by (simp add: engine_defs example_defs str_1 scenario_db_after_def scenario_result_def)


subsection \<open>Tickets created by a call\<close>

lemma ticket_block_ok:
  assumes "filter (lookup (profile_id p) ty ''open'' True) (tickets (fst s)) = []"
  shows "\<exists>s'. ticket_block trig ty n alert p s = Inr s'"
  using assms by (cases trig) (simp_all add: ticket_block_fresh)

text \<open>
  C8. When the profile has no open auto-generated ticket before the call, the call returns
  and the tickets it creates are, in this order: a psychological one iff the mental state
  is \<open>bad\<close>, a housing one iff the housing status is \<open>homeless\<close>, a job one iff the job
  status is \<open>unemployed\<close>, a social one iff the family status is \<open>problematic\<close> or
  \<open>no_contact\<close>; so zero to four tickets, at most one per category. These are exactly
  the rows added to the ticket table.
\<close>

theorem new_tickets_per_category:
  assumes g: "get_profile d (release_profile_id c) = Some p0"
    and none: "\<forall>t\<in>set (tickets d).
        \<not> (ticket_profile_id t = release_profile_id c \<and> status t = ''open'' \<and>
           is_auto_generated t)"
  shows "\<exists>d' r. process_checkin d c = (d', Inr r) \<and>
     created_tickets r =
       (if mental_state c = ''bad''
        then [auto_ticket (release_profile_id c) ''psychological''
                (Note_mental_bad (month_index c))] else []) @
       (if housing_status c = ''homeless''
        then [auto_ticket (release_profile_id c) ''housing''
                (Note_homeless (month_index c))] else []) @
       (if job_status c = ''unemployed''
        then [auto_ticket (release_profile_id c) ''job''
                (Note_unemployed (month_index c))] else []) @
       (if family_status c = ''problematic'' \<or> family_status c = ''no_contact''
        then [auto_ticket (release_profile_id c) ''social''
                (Note_family_problems (month_index c))] else []) \<and>
     tickets d' = tickets d @ created_tickets r \<and>
     length (created_tickets r) \<le> 4 \<and>
     distinct (map ticket_type (created_tickets r))"
proof -
  have e: "filter (lookup (release_profile_id c) ty ''open'' True) (tickets d) = []" for ty
    using none by (auto simp: filter_empty_conv lookup_def)
  obtain p d0 where s: "release_profile_save (p0\<lparr>risk_level := calculate_risk_level c\<rparr>) d = (p, d0)"
    by (cases "release_profile_save (p0\<lparr>risk_level := calculate_risk_level c\<rparr>) d")
  have pk: "profile_id p = release_profile_id c"
    using save_fields(1) [OF s] get_profile_id [OF g] by simp
  have e0: "filter (lookup (profile_id p) ty ''open'' True) (tickets d0) = []" for ty
    by (simp add: pk save_fields(5) [OF s] e)
  from ticket_block_ok obtain s1 where b1: "psychological_block c p (d0, []) = Inr s1"
    unfolding psychological_block_eq using e0 by fastforce
  have "filter (lookup (profile_id p) ''housing'' ''open'' True) (tickets (fst s1)) = []"
    using ticket_block_other [OF b1 [unfolded psychological_block_eq]] e0 by simp
  from ticket_block_ok [OF this] obtain s2 where b2: "housing_block c p s1 = Inr s2"
    unfolding housing_block_eq by blast
  have "filter (lookup (profile_id p) ''job'' ''open'' True) (tickets (fst s2)) = []"
    using ticket_block_other [OF b2 [unfolded housing_block_eq]]
      ticket_block_other [OF b1 [unfolded psychological_block_eq]] e0 by simp
  from ticket_block_ok [OF this] obtain s3 where b3: "job_block c p s2 = Inr s3"
    unfolding job_block_eq by blast
  have "filter (lookup (profile_id p) ''social'' ''open'' True) (tickets (fst s3)) = []"
    using ticket_block_other [OF b3 [unfolded job_block_eq]]
      ticket_block_other [OF b2 [unfolded housing_block_eq]]
      ticket_block_other [OF b1 [unfolded psychological_block_eq]] e0 by simp
  from ticket_block_ok [OF this] obtain s4 where b4: "social_block c p s3 = Inr s4"
    unfolding social_block_eq by blast
  from process_checkin_blocks [OF g s b1 b2 b3 b4] obtain d' r where
    run: "process_checkin d c = (d', Inr r)" by blast
  note ok = process_checkin_success [OF run g]
  have ct: "created_tickets r =
       (if mental_state c = ''bad''
        then [auto_ticket (release_profile_id c) ''psychological''
                (Note_mental_bad (month_index c))] else []) @
       (if housing_status c = ''homeless''
        then [auto_ticket (release_profile_id c) ''housing''
                (Note_homeless (month_index c))] else []) @
       (if job_status c = ''unemployed''
        then [auto_ticket (release_profile_id c) ''job''
                (Note_unemployed (month_index c))] else []) @
       (if family_status c = ''problematic'' \<or> family_status c = ''no_contact''
        then [auto_ticket (release_profile_id c) ''social''
                (Note_family_problems (month_index c))] else [])"
    unfolding ok(1) issued_def e by simp
  have "tickets d' = tickets d @ created_tickets r"
    unfolding ok(1) ok(2) by simp
  moreover have "length (created_tickets r) \<le> 4"
    unfolding ct by simp
  moreover have "distinct (map ticket_type (created_tickets r))"
    unfolding ct by (simp add: auto_ticket_def)
  ultimately show ?thesis using run ct by blast
qed

text \<open>
  The scenario of the specification: mental state bad, housing temporary, unemployed,
  family problematic. One psychological, one job and one social ticket, no housing ticket.
\<close>

theorem new_tickets_per_category_witness:
  "get_profile example_db (release_profile_id scenario_checkin) = Some example_profile \<and>
   tickets example_db = [] \<and>
   (\<exists>d' r. process_checkin example_db scenario_checkin = (d', Inr r) \<and>
      created_tickets r =
        [auto_ticket 1 ''psychological'' (Note_mental_bad 3),
         auto_ticket 1 ''job'' (Note_unemployed 3),
         auto_ticket 1 ''social'' (Note_family_problems 3)] \<and>
      tickets d' = created_tickets r)"
proof -
  have g: "get_profile example_db (release_profile_id scenario_checkin) = Some example_profile"
    by (simp add: get_profile_def example_defs)
  have t: "tickets example_db = []"
    by (simp add: example_db_def)
  then have none: "\<forall>t\<in>set (tickets example_db).
        \<not> (ticket_profile_id t = release_profile_id scenario_checkin \<and> status t = ''open'' \<and>
           is_auto_generated t)"
    by simp
  from new_tickets_per_category [OF g none] g t show ?thesis
    by (auto simp: scenario_checkin_def)
qed

text \<open>
  C3. Processing the same check-in a second time, right after a call that returned,
  creates no ticket and leaves the whole database as it is. When no (profile, category) has
  more than one open auto-generated ticket before a call, the call returns and the same
  holds after it.
\<close>

theorem process_checkin_idempotent:
  "(\<forall>d1 r1. process_checkin d c = (d1, Inr r1) \<longrightarrow>
      process_checkin d1 c =
        (d1, Inr \<lparr>old_risk_level = calculate_risk_level c,
                  new_risk_level = calculate_risk_level c,
                  risk_changed = False, created_tickets = []\<rparr>)) \<and>
   (open_auto_unique d \<and> get_profile d (release_profile_id c) \<noteq> None \<longrightarrow>
      (\<exists>d1 r1. process_checkin d c = (d1, Inr r1) \<and> open_auto_unique d1 \<and>
         (\<forall>pid ty. length (filter (lookup pid ty ''open'' True) (tickets d1)) \<le> 1)))"
proof (intro conjI allI impI)
  fix d1 r1 assume "process_checkin d c = (d1, Inr r1)"
  then show "process_checkin d1 c =
        (d1, Inr \<lparr>old_risk_level = calculate_risk_level c,
                  new_risk_level = calculate_risk_level c,
                  risk_changed = False, created_tickets = []\<rparr>)"
    by (rule process_checkin_repeat)
next
  assume "open_auto_unique d \<and> get_profile d (release_profile_id c) \<noteq> None"
  then obtain p0 where u: "open_auto_unique d"
    and g: "get_profile d (release_profile_id c) = Some p0" by auto
  from process_checkin_unique [OF u g] obtain d1 r1 where
    run: "process_checkin d c = (d1, Inr r1)" and u1: "open_auto_unique d1" by blast
  have "length (filter (lookup pid ty ''open'' True) (tickets d1)) \<le> 1" for pid ty
    using unique_lookup_le1 [OF u1 [unfolded open_auto_unique_def]] by simp
  with run u1 show "\<exists>d1 r1. process_checkin d c = (d1, Inr r1) \<and> open_auto_unique d1 \<and>
         (\<forall>pid ty. length (filter (lookup pid ty ''open'' True) (tickets d1)) \<le> 1)"
    by blast
qed

theorem process_checkin_idempotent_witness:
  "open_auto_unique example_db \<and>
   get_profile example_db (release_profile_id scenario_checkin) = Some example_profile \<and>
   open_auto_unique (fst (process_checkin example_db scenario_checkin)) \<and>
   process_checkin (fst (process_checkin example_db scenario_checkin)) scenario_checkin =
     (fst (process_checkin example_db scenario_checkin),
      Inr \<lparr>old_risk_level = ''red'', new_risk_level = ''red'', risk_changed = False,
           created_tickets = []\<rparr>)"
proof -
  have u: "open_auto_unique example_db"
    by (simp add: open_auto_unique_def open_auto_keys_def example_db_def)
  have g: "get_profile example_db (release_profile_id scenario_checkin) = Some example_profile"
    by (simp add: get_profile_def example_defs)
  have l: "calculate_risk_level scenario_checkin = ''red''"
    by (simp add: calculate_risk_level_def any_red scenario_checkin_def)
  from process_checkin_idempotent [of example_db scenario_checkin] u g l show ?thesis
    using scenario_run by (auto simp: scenario_db_after_def scenario_result_def)
qed

subsection \<open>Notifications sent by a call\<close>












subsection \<open>The stored level and the result\<close>



subsection \<open>Risk summary\<close>

lemma first_Nil_iff: "first rows = None \<longleftrightarrow> rows = []"
  by (simp add: first_def split: list.split)






end
